theory Spec2Isabelle
  imports Complex_Main "HOL-Library.Multiset"
begin

section \<open>Fan engagement backend: store, progression, rewards, predictions\<close>

text \<open>
  A shallow embedding of \<^verbatim>\<open>backend/app/memory/database.py\<close> (class \<open>Database\<close>),
  \<^verbatim>\<open>backend/app/predictions/engine.py\<close> (class \<open>PredictionEngine\<close>) and the request
  handlers of \<^verbatim>\<open>backend/app/main.py\<close> that call them.

  Conventions of the embedding:
  \<^item> an SQLite table is the list of its rows in insertion (rowid) order; a \<open>UNIQUE\<close> or
    \<open>PRIMARY KEY\<close> constraint is the check the \<open>INSERT\<close> makes before it appends;
  \<^item> the surrogate \<open>id INTEGER PRIMARY KEY AUTOINCREMENT\<close> columns are not stored: no
    operation modelled here reads them (the id \<open>save_prediction\<close> reports is the number of
    prediction rows after its insert, which is what AUTOINCREMENT yields on a table
    nothing is ever deleted from);
  \<^item> \<open>CURRENT_TIMESTAMP\<close> is the parameter \<open>now\<close> of the operation that evaluates it;
  \<^item> Python \<open>int\<close> is \<open>int\<close>; a Python \<open>float\<close> is read as the real number it
    approximates (\<open>score_percentage\<close>, the win probability); balances are assumed to stay
    inside SQLite's 64-bit INTEGER range;
  \<^item> an argument of a statement is bound as the \<open>sqlite3\<close> module binds it: an \<open>int\<close>
    outside the signed 64-bit range raises \<open>OverflowError\<close>, the float NaN is bound as
    NULL, and a text stored in an INTEGER column goes through the column's affinity;
  \<^item> strings are ASCII text; \<open>random\<close> draws are parameters of the function that makes
    them;
  \<^item> a request handler is the Python function: its result is the value it returns or the
    \<open>HTTPException\<close> it raises.
\<close>

subsection \<open>Python string methods\<close>

definition ascii_uppercase :: string where
  "ascii_uppercase = ''ABCDEFGHIJKLMNOPQRSTUVWXYZ''"

definition ascii_lowercase :: string where
  "ascii_lowercase = ''abcdefghijklmnopqrstuvwxyz''"

definition lower_chr :: "char \<Rightarrow> char" where
  "lower_chr c = (case map_of (zip ascii_uppercase ascii_lowercase) c of None \<Rightarrow> c | Some d \<Rightarrow> d)"

definition upper_chr :: "char \<Rightarrow> char" where
  "upper_chr c = (case map_of (zip ascii_lowercase ascii_uppercase) c of None \<Rightarrow> c | Some d \<Rightarrow> d)"




definition str_capitalize :: "string \<Rightarrow> string" where
  "str_capitalize s = (case s of [] \<Rightarrow> [] | c # cs \<Rightarrow> upper_chr c # map lower_chr cs)"



subsection \<open>Rows and the store\<close>

type_synonym timestamp = nat

text \<open>
  \<open>quiz_progress.current_level\<close> and \<open>completed_levels.level\<close> are declared INTEGER, and
  the code binds both Python integers (the \<open>int\<close> parameter of the update endpoint) and
  Python strings (the level names \<open>"Easy"\<close>, \<open>"Medium"\<close>, \<open>"Hard"\<close>, or whatever text a
  request carries) into them. A cell of such a column holds an integer, a real or a text.
\<close>

datatype level_val = LInt int | LReal real | LStr string

datatype py_error = IndexError | OverflowError | IntegrityError


datatype py_float = PyFloat real | PyInf | PyNegInf | PyNaN

definition int64 :: "int \<Rightarrow> bool" where
  \<comment> \<open>the integers the \<open>sqlite3\<close> module binds; any other raises \<open>OverflowError\<close>\<close>
  "int64 i = (- (2 ^ 63) \<le> i \<and> i < 2 ^ 63)"










fun same_cell :: "level_val \<Rightarrow> level_val \<Rightarrow> bool" where
  \<comment> \<open>equality of two cells in a \<open>UNIQUE\<close> check: numbers by value, texts by their characters\<close>
  "same_cell (LInt i) (LInt j) = (i = j)"
| "same_cell (LInt i) (LReal r) = (real_of_int i = r)"
| "same_cell (LReal r) (LInt i) = (r = real_of_int i)"
| "same_cell (LReal r) (LReal q) = (r = q)"
| "same_cell (LStr a) (LStr b) = (a = b)"
| "same_cell _ _ = False"

record user_row =
  user_id :: string
  username :: string
  favorite_team :: string
  total_points :: int
  badges :: "string list"
  created_at :: timestamp
  last_interaction :: timestamp

record quiz_history_row =
  qh_user_id :: string
  qh_team :: string
  difficulty :: string
  qh_questions :: string
  qh_answers :: string
  qh_score :: real
  qh_created_at :: timestamp

record prediction_row =
  p_user_id :: string
  p_team1 :: string
  p_team2 :: string
  p_predicted_winner :: string
  predicted_score :: string
  p_explanation :: string
  actual_outcome :: "string option"
  points_earned :: int
  p_created_at :: timestamp

record chat_row =
  ch_user_id :: string
  message :: string
  response :: string
  tool_used :: "string option"
  ch_created_at :: timestamp

record progress_row =
  qp_user_id :: string
  qp_team :: string
  current_level :: level_val
  current_question_index :: int
  level_score :: int
  total_correct :: int
  started_at :: timestamp
  last_updated :: timestamp

record completed_row =
  cl_user_id :: string
  cl_team :: string
  cl_level :: level_val
  cl_score :: py_float
  completed_at :: timestamp

record asked_row =
  aq_user_id :: string
  aq_team :: string
  question_id :: string
  asked_at :: timestamp

record store =
  users :: "user_row list"
  quiz_history :: "quiz_history_row list"
  predictions :: "prediction_row list"
  chat_history :: "chat_row list"
  quiz_progress :: "progress_row list"
  completed_levels :: "completed_row list"
  asked_questions :: "asked_row list"

definition init_db :: store where
  \<comment> \<open>\<open>CREATE TABLE IF NOT EXISTS\<close> on a fresh file: seven empty tables\<close>
  "init_db = \<lparr>users = [], quiz_history = [], predictions = [], chat_history = [],
               quiz_progress = [], completed_levels = [], asked_questions = []\<rparr>"

subsection \<open>Database: users\<close>

definition get_user :: "string \<Rightarrow> store \<Rightarrow> user_row option" where
  "get_user uid s = find (\<lambda>r. user_id r = uid) (users s)"

datatype create_user_result = UserCreated string | UserAlreadyExists

definition create_user ::
  "timestamp \<Rightarrow> string \<Rightarrow> string \<Rightarrow> string \<Rightarrow> store \<Rightarrow> create_user_result \<times> store" where
  "create_user now uid uname fav s =
     (case get_user uid s of
        Some _ \<Rightarrow> (UserAlreadyExists, s)
      | None \<Rightarrow>
          (UserCreated uid,
           s\<lparr>users := users s @
                [\<lparr>user_id = uid, username = uname, favorite_team = fav, total_points = 0,
                  badges = [], created_at = now, last_interaction = now\<rparr>]\<rparr>))"

definition update_user_points :: "timestamp \<Rightarrow> string \<Rightarrow> int \<Rightarrow> store \<Rightarrow> store" where
  "update_user_points now uid points s =
     s\<lparr>users :=
         map (\<lambda>r. if user_id r = uid
                   then r\<lparr>total_points := total_points r + points, last_interaction := now\<rparr>
                   else r)
             (users s)\<rparr>"

definition add_badge :: "string \<Rightarrow> string \<Rightarrow> store \<Rightarrow> store" where
  "add_badge uid badge s =
     (case get_user uid s of
        None \<Rightarrow> s
      | Some row \<Rightarrow>
          if badge \<in> set (badges row) then s
          else s\<lparr>users :=
                   map (\<lambda>r. if user_id r = uid then r\<lparr>badges := badges row @ [badge]\<rparr> else r)
                       (users s)\<rparr>)"

definition add_quiz_points :: "timestamp \<Rightarrow> string \<Rightarrow> int \<Rightarrow> store \<Rightarrow> store" where
  "add_quiz_points now uid points s = update_user_points now uid points s"

subsection \<open>Database: quiz progress\<close>

definition get_quiz_progress :: "string \<Rightarrow> string \<Rightarrow> store \<Rightarrow> progress_row option" where
  "get_quiz_progress uid team s =
     find (\<lambda>r. qp_user_id r = uid \<and> qp_team r = team) (quiz_progress s)"

record create_progress_result =
  cp_success :: bool
  cp_existing :: bool

definition create_quiz_progress ::
  "timestamp \<Rightarrow> string \<Rightarrow> string \<Rightarrow> store \<Rightarrow> create_progress_result \<times> store" where
  "create_quiz_progress now uid team s =
     (case get_quiz_progress uid team s of
        Some _ \<Rightarrow> (\<lparr>cp_success = True, cp_existing = True\<rparr>, s)
      | None \<Rightarrow>
          (\<lparr>cp_success = True, cp_existing = False\<rparr>,
           s\<lparr>quiz_progress := quiz_progress s @
                [\<lparr>qp_user_id = uid, qp_team = team, current_level = LInt 1,
                  current_question_index = 0, level_score = 0, total_correct = 0,
                  started_at = now, last_updated = now\<rparr>]\<rparr>))"

text \<open>
  A method that binds a level or several integers first binds its arguments, which raises
  \<open>OverflowError\<close> before anything is written, and then runs its statement;
  \<open>sql_update_quiz_progress\<close> and \<open>sql_replace_completed_level\<close> are the statements on
  bound cells.
\<close>

definition sql_update_quiz_progress ::
  "timestamp \<Rightarrow> string \<Rightarrow> string \<Rightarrow> level_val \<Rightarrow> int \<Rightarrow> int \<Rightarrow> int \<Rightarrow> store \<Rightarrow> store" where
  "sql_update_quiz_progress now uid team lvl idx score correct s =
     s\<lparr>quiz_progress :=
         map (\<lambda>r. if qp_user_id r = uid \<and> qp_team r = team
                   then r\<lparr>current_level := lvl, current_question_index := idx,
                          level_score := score, total_correct := correct, last_updated := now\<rparr>
                   else r)
             (quiz_progress s)\<rparr>"


definition sql_replace_completed_level ::
  "timestamp \<Rightarrow> string \<Rightarrow> string \<Rightarrow> level_val \<Rightarrow> py_float \<Rightarrow> store \<Rightarrow> store" where
  \<comment> \<open>\<open>INSERT OR REPLACE\<close>: the row that holds the unique triple is deleted, the new one
      appended\<close>
  "sql_replace_completed_level now uid team lvl score s =
     s\<lparr>completed_levels :=
         filter (\<lambda>r. \<not> (cl_user_id r = uid \<and> cl_team r = team \<and> same_cell (cl_level r) lvl))
                (completed_levels s) @
         [\<lparr>cl_user_id = uid, cl_team = team, cl_level = lvl, cl_score = score,
           completed_at = now\<rparr>]\<rparr>"


definition add_quiz_attempt ::
  "timestamp \<Rightarrow> string \<Rightarrow> string \<Rightarrow> string \<Rightarrow> real \<Rightarrow> string \<Rightarrow> string \<Rightarrow> store \<Rightarrow> store" where
  \<comment> \<open>\<open>questions\<close> and \<open>answers\<close> are the JSON texts \<open>json.dumps\<close> produced\<close>
  "add_quiz_attempt now uid team diff score questions answers s =
     s\<lparr>quiz_history := quiz_history s @
         [\<lparr>qh_user_id = uid, qh_team = team, difficulty = diff, qh_questions = questions,
           qh_answers = answers, qh_score = score, qh_created_at = now\<rparr>]\<rparr>"

subsection \<open>Database: predictions, chat, leaderboard, asked questions\<close>

definition add_prediction ::
  "timestamp \<Rightarrow> string \<Rightarrow> string \<Rightarrow> string \<Rightarrow> string \<Rightarrow> string \<Rightarrow> string \<Rightarrow> store \<Rightarrow> nat \<times> store" where
  "add_prediction now uid t1 t2 winner score expl s =
     (Suc (length (predictions s)),
      s\<lparr>predictions := predictions s @
          [\<lparr>p_user_id = uid, p_team1 = t1, p_team2 = t2, p_predicted_winner = winner,
            predicted_score = score, p_explanation = expl, actual_outcome = None,
            points_earned = 0, p_created_at = now\<rparr>]\<rparr>)"

definition add_chat_message ::
  "timestamp \<Rightarrow> string \<Rightarrow> string \<Rightarrow> string \<Rightarrow> string option \<Rightarrow> store \<Rightarrow> store" where
  "add_chat_message now uid msg resp tool s =
     s\<lparr>chat_history := chat_history s @
         [\<lparr>ch_user_id = uid, message = msg, response = resp, tool_used = tool,
           ch_created_at = now\<rparr>]\<rparr>"

text \<open>
  \<open>ORDER BY total_points DESC\<close>: SQLite leaves the order of rows with equal keys open.
  \<open>order_by_total_points_desc\<close> is the stable choice (equal totals stay in rowid order);
  \<open>ordered_by_total_points_desc\<close> is what every admissible answer of the query satisfies.
\<close>

fun insert_desc :: "user_row \<Rightarrow> user_row list \<Rightarrow> user_row list" where
  "insert_desc r [] = [r]"
| "insert_desc r (x # xs) =
     (if total_points x \<le> total_points r then r # x # xs else x # insert_desc r xs)"

definition order_by_total_points_desc :: "user_row list \<Rightarrow> user_row list" where
  "order_by_total_points_desc rows = foldr insert_desc rows []"

definition ordered_by_total_points_desc :: "user_row list \<Rightarrow> user_row list \<Rightarrow> bool" where
  "ordered_by_total_points_desc rows out =
     (mset out = mset rows \<and> sorted_wrt (\<lambda>a b. total_points b \<le> total_points a) out)"

definition sql_limit :: "int \<Rightarrow> 'a list \<Rightarrow> 'a list" where
  \<comment> \<open>\<open>LIMIT n\<close> for a bound 64-bit \<open>n\<close>: SQLite reads a negative \<open>n\<close> as no upper bound\<close>
  "sql_limit n rows = (if n < 0 then rows else take (nat n) rows)"

record leaderboard_entry =
  rank :: int
  le_user_id :: string
  le_username :: string
  points :: int
  team :: string

definition leaderboard_of :: "user_row list \<Rightarrow> leaderboard_entry list" where
  "leaderboard_of rows =
     map (\<lambda>(idx, row). \<lparr>rank = int idx + 1, le_user_id = user_id row,
                          le_username = username row, points = total_points row,
                          team = favorite_team row\<rparr>)
         (enumerate 0 rows)"

definition get_leaderboard :: "int \<Rightarrow> store \<Rightarrow> py_error + leaderboard_entry list" where
  \<comment> \<open>binding a \<open>limit\<close> outside the signed 64-bit range raises \<open>OverflowError\<close>\<close>
  "get_leaderboard limit s =
     (if int64 limit
      then Inr (leaderboard_of (sql_limit limit (order_by_total_points_desc (users s))))
      else Inl OverflowError)"

definition record_asked_question ::
  "timestamp \<Rightarrow> string \<Rightarrow> string \<Rightarrow> string \<Rightarrow> store \<Rightarrow> store" where
  "record_asked_question now uid tm qid s =
     (case find (\<lambda>r. aq_user_id r = uid \<and> aq_team r = tm \<and> question_id r = qid)
                (asked_questions s) of
        Some _ \<Rightarrow> s
      | None \<Rightarrow>
          s\<lparr>asked_questions := asked_questions s @
              [\<lparr>aq_user_id = uid, aq_team = tm, question_id = qid, asked_at = now\<rparr>]\<rparr>)"

definition get_asked_questions :: "string \<Rightarrow> string \<Rightarrow> store \<Rightarrow> string list" where
  "get_asked_questions uid tm s =
     map question_id (filter (\<lambda>r. aq_user_id r = uid \<and> aq_team r = tm) (asked_questions s))"

definition reset_asked_questions :: "string \<Rightarrow> string \<Rightarrow> store \<Rightarrow> store" where
  "reset_asked_questions uid tm s =
     s\<lparr>asked_questions :=
         filter (\<lambda>r. \<not> (aq_user_id r = uid \<and> aq_team r = tm)) (asked_questions s)\<rparr>"

text \<open>
  \<open>save_prediction\<close> runs its INSERT and its UPDATE in one transaction: \<open>commit\<close> publishes
  both, and any exception reaches \<open>rollback\<close>, which discards what the transaction wrote.
  \<open>fault\<close> says which statement, if any, raises.
\<close>

datatype fault = NoFault | InsertFails | UpdateFails | CommitFails

datatype save_result = Saved nat int | SaveError fault

definition insert_prediction ::
  "timestamp \<Rightarrow> string \<Rightarrow> string \<Rightarrow> string \<Rightarrow> string \<Rightarrow> string \<Rightarrow> int \<Rightarrow> string \<Rightarrow>
   string option \<Rightarrow> store \<Rightarrow> store" where
  "insert_prediction now uid t1 t2 user_prediction system_outcome pts expl sport s =
     s\<lparr>predictions := predictions s @
         [\<lparr>p_user_id = uid, p_team1 = t1, p_team2 = t2, p_predicted_winner = user_prediction,
           predicted_score = (case sport of None \<Rightarrow> [] | Some sp \<Rightarrow> sp),
           p_explanation = expl, actual_outcome = Some system_outcome,
           points_earned = pts, p_created_at = now\<rparr>]\<rparr>"

definition credit_user :: "string \<Rightarrow> int \<Rightarrow> store \<Rightarrow> store" where
  \<comment> \<open>\<open>UPDATE users SET total_points = total_points + ? WHERE user_id = ?\<close>\<close>
  "credit_user uid pts s =
     s\<lparr>users :=
         map (\<lambda>r. if user_id r = uid then r\<lparr>total_points := total_points r + pts\<rparr> else r)
             (users s)\<rparr>"

definition save_prediction ::
  "timestamp \<Rightarrow> fault \<Rightarrow> string \<Rightarrow> string \<Rightarrow> string \<Rightarrow> string \<Rightarrow> string \<Rightarrow> int \<Rightarrow> string \<Rightarrow>
   string option \<Rightarrow> store \<Rightarrow> save_result \<times> store" where
  "save_prediction now fault uid t1 t2 user_prediction system_outcome pts expl sport s =
     (if fault = InsertFails then (SaveError InsertFails, s)
      else
        let tx1 = insert_prediction now uid t1 t2 user_prediction system_outcome pts expl sport s
        in if fault = UpdateFails then (SaveError UpdateFails, s)
           else
             let tx2 = credit_user uid pts tx1
             in if fault = CommitFails then (SaveError CommitFails, s)
                else (Saved (length (predictions tx2)) pts, tx2))"

subsection \<open>PredictionEngine\<close>

record team_data =
  ranking :: int
  strength :: int
  recent_form :: int

definition TEAM_RANKINGS :: "(string \<times> team_data) list" where
  "TEAM_RANKINGS =
     [(''Real Madrid'', \<lparr>ranking = 1, strength = 95, recent_form = 8\<rparr>),
      (''Manchester City'', \<lparr>ranking = 2, strength = 94, recent_form = 9\<rparr>),
      (''Barcelona'', \<lparr>ranking = 3, strength = 92, recent_form = 8\<rparr>),
      (''Liverpool'', \<lparr>ranking = 4, strength = 91, recent_form = 8\<rparr>),
      (''Bayern Munich'', \<lparr>ranking = 5, strength = 90, recent_form = 8\<rparr>),
      (''Arsenal'', \<lparr>ranking = 6, strength = 89, recent_form = 9\<rparr>),
      (''Juventus'', \<lparr>ranking = 7, strength = 88, recent_form = 7\<rparr>),
      (''Manchester United'', \<lparr>ranking = 8, strength = 87, recent_form = 7\<rparr>),
      (''Paris Saint-Germain'', \<lparr>ranking = 9, strength = 86, recent_form = 8\<rparr>),
      (''Inter Milan'', \<lparr>ranking = 10, strength = 85, recent_form = 8\<rparr>),
      (''Chelsea'', \<lparr>ranking = 11, strength = 84, recent_form = 7\<rparr>),
      (''Atletico Madrid'', \<lparr>ranking = 12, strength = 83, recent_form = 7\<rparr>),
      (''Tottenham'', \<lparr>ranking = 13, strength = 82, recent_form = 7\<rparr>),
      (''Borussia Dortmund'', \<lparr>ranking = 14, strength = 81, recent_form = 8\<rparr>),
      (''Sevilla'', \<lparr>ranking = 15, strength = 80, recent_form = 6\<rparr>),
      (''Napoli'', \<lparr>ranking = 16, strength = 79, recent_form = 7\<rparr>),
      (''Villarreal'', \<lparr>ranking = 17, strength = 78, recent_form = 6\<rparr>),
      (''Valencia'', \<lparr>ranking = 18, strength = 77, recent_form = 6\<rparr>),
      (''Lecce'', \<lparr>ranking = 19, strength = 76, recent_form = 5\<rparr>),
      (''Brentford'', \<lparr>ranking = 20, strength = 75, recent_form = 6\<rparr>),
      (''Denver Nuggets'', \<lparr>ranking = 1, strength = 96, recent_form = 9\<rparr>),
      (''Boston Celtics'', \<lparr>ranking = 2, strength = 95, recent_form = 9\<rparr>),
      (''Los Angeles Lakers'', \<lparr>ranking = 3, strength = 94, recent_form = 8\<rparr>),
      (''Golden State Warriors'', \<lparr>ranking = 4, strength = 92, recent_form = 8\<rparr>),
      (''Phoenix Suns'', \<lparr>ranking = 5, strength = 91, recent_form = 8\<rparr>),
      (''Miami Heat'', \<lparr>ranking = 6, strength = 89, recent_form = 7\<rparr>),
      (''Dallas Mavericks'', \<lparr>ranking = 7, strength = 88, recent_form = 5\<rparr>),
      (''Milwaukee Bucks'', \<lparr>ranking = 8, strength = 87, recent_form = 7\<rparr>),
      (''New York Knicks'', \<lparr>ranking = 9, strength = 86, recent_form = 7\<rparr>),
      (''Chicago Bulls'', \<lparr>ranking = 10, strength = 85, recent_form = 6\<rparr>),
      (''Kansas City Chiefs'', \<lparr>ranking = 1, strength = 95, recent_form = 9\<rparr>),
      (''San Francisco 49ers'', \<lparr>ranking = 2, strength = 94, recent_form = 8\<rparr>),
      (''Buffalo Bills'', \<lparr>ranking = 3, strength = 93, recent_form = 8\<rparr>),
      (''Detroit Lions'', \<lparr>ranking = 4, strength = 92, recent_form = 8\<rparr>),
      (''Dallas Cowboys'', \<lparr>ranking = 5, strength = 90, recent_form = 7\<rparr>),
      (''Green Bay Packers'', \<lparr>ranking = 6, strength = 89, recent_form = 7\<rparr>),
      (''New England Patriots'', \<lparr>ranking = 7, strength = 88, recent_form = 6\<rparr>),
      (''Miami Dolphins'', \<lparr>ranking = 8, strength = 87, recent_form = 8\<rparr>),
      (''Philadelphia Eagles'', \<lparr>ranking = 9, strength = 86, recent_form = 7\<rparr>),
      (''Pittsburgh Steelers'', \<lparr>ranking = 10, strength = 85, recent_form = 6\<rparr>)]"

definition default_team_data :: team_data where
  "default_team_data = \<lparr>ranking = 50, strength = 50, recent_form = 5\<rparr>"

definition team_data_of :: "string \<Rightarrow> team_data" where
  \<comment> \<open>\<open>TEAM_RANKINGS.get(team, {...defaults...})\<close>\<close>
  "team_data_of t = (case map_of TEAM_RANKINGS t of None \<Rightarrow> default_team_data | Some d \<Rightarrow> d)"

definition team_score :: "team_data \<Rightarrow> real" where
  "team_score d = real_of_int (strength d) * (6 / 10) + real_of_int (recent_form d) * 5
                  + real_of_int (100 - ranking d)"

definition py_int :: "real \<Rightarrow> int" where
  \<comment> \<open>\<open>int(x)\<close> truncates towards zero\<close>
  "py_int x = (if 0 \<le> x then \<lfloor>x\<rfloor> else \<lceil>x\<rceil>)"

record prediction =
  predicted_winner :: string
  predicted_loser :: string
  confidence :: int
  winner_strength :: int
  loser_strength :: int

text \<open>
  \<open>rand\<close> is the value \<open>random.random()\<close> returned. The explanation text the function
  also formats is not part of the model; where a caller stores it, it is a parameter.
\<close>

definition generate_prediction :: "real \<Rightarrow> string \<Rightarrow> string \<Rightarrow> string \<Rightarrow> prediction" where
  "generate_prediction rand team1 team2 sport =
     (let t1_score = team_score (team_data_of team1);
          t2_score = team_score (team_data_of team2);
          total = t1_score + t2_score;
          t1_win_prob = (if total > 0 then t1_score / total else 1 / 2);
          (winner, loser, conf) =
             (if rand < t1_win_prob then (team1, team2, py_int (t1_win_prob * 100))
              else (team2, team1, py_int ((1 - t1_win_prob) * 100)))
      in \<lparr>predicted_winner = winner, predicted_loser = loser, confidence = conf,
           winner_strength = strength (team_data_of winner),
           loser_strength = strength (team_data_of loser)\<rparr>)"

definition evaluate_prediction :: "string \<Rightarrow> string \<Rightarrow> string \<Rightarrow> bool \<times> int" where
  "evaluate_prediction user_prediction system_outcome sport =
     (if sport = ''soccer'' then
        (if user_prediction = ''Draw'' then
           (let is_correct = (system_outcome = ''Draw'')
            in (is_correct, if is_correct then 50 else 0))
         else
           (let is_correct = (user_prediction = system_outcome)
            in (is_correct, if is_correct then 30 else 0)))
      else
        (let is_correct = (user_prediction = system_outcome)
         in (is_correct, if is_correct then 25 else 0)))"

subsection \<open>Request handlers: progress\<close>

datatype http_error = HTTPException nat

definition init_quiz_progress :: "timestamp \<Rightarrow> string \<Rightarrow> string \<Rightarrow> store \<Rightarrow> (http_error + bool) \<times> store" where
  \<comment> \<open>the answer is \<open>{"success": True, ...}\<close> whatever \<open>create_quiz_progress\<close> returned\<close>
  "init_quiz_progress now uid tm s = (Inr True, snd (create_quiz_progress now uid tm s))"









record leaderboard_response =
  leaderboard :: "leaderboard_entry list"
  total_users :: nat

definition api_get_leaderboard :: "int \<Rightarrow> store \<Rightarrow> http_error + leaderboard_response" where
  \<comment> \<open>the handler \<open>get_leaderboard\<close> of \<^verbatim>\<open>main.py\<close>; it reads the store and writes nothing\<close>
  "api_get_leaderboard limit s =
     (case get_leaderboard limit s of
        Inl _ \<Rightarrow> Inl (HTTPException 500)
      | Inr lb \<Rightarrow>
          (case get_leaderboard 1000 s of
             Inl _ \<Rightarrow> Inl (HTTPException 500)
           | Inr every \<Rightarrow> Inr \<lparr>leaderboard = lb, total_users = length every\<rparr>))"

subsection \<open>Request handlers: quizzes\<close>

record quiz_question =
  q_id :: string
  q_level :: string
  q_team :: string
  q_question :: string
  q_options :: "string list"
  q_explanation :: string

record bank_question =
  bq_id :: string
  bq_level :: string
  bq_team :: string
  bq_question :: string
  bq_options :: "string list"
  correctAnswerIndex :: "int option"
  bq_explanation :: string




record question_result =
  r_question :: string
  user_answer :: string
  correct_answer :: string
  is_correct :: bool
  r_explanation :: string





text \<open>
  \<open>random.sample(population, k)\<close> draws \<open>k\<close> positions without replacement. \<open>picks\<close> is
  the stream of random numbers it consumes: each draw takes one, reduces it modulo the
  number of elements still in the population and removes the element it selects.
\<close>

fun random_sample :: "nat list \<Rightarrow> 'a list \<Rightarrow> nat \<Rightarrow> 'a list" where
  "random_sample picks pool 0 = []"
| "random_sample picks pool (Suc k) =
     (if pool = [] then []
      else
        let j = (case picks of [] \<Rightarrow> 0 | p # _ \<Rightarrow> p mod length pool)
        in pool ! j # random_sample (tl picks) (take j pool @ drop (Suc j) pool) k)"

definition quiz_display_of :: "bank_question \<Rightarrow> quiz_question" where
  "quiz_display_of q =
     \<lparr>q_id = bq_id q, q_level = bq_level q, q_team = bq_team q, q_question = bq_question q,
      q_options = bq_options q, q_explanation = bq_explanation q\<rparr>"

record generated_quiz =
  gq_level :: string
  gq_team :: string
  questions :: "quiz_question list"
  total_questions :: nat
  total_available :: nat

definition team_level_questions :: "bank_question list \<Rightarrow> string \<Rightarrow> string \<Rightarrow> bank_question list" where
  "team_level_questions bank tm level = filter (\<lambda>q. bq_team q = tm \<and> bq_level q = level) bank"

definition generate_quiz ::
  "timestamp \<Rightarrow> nat list \<Rightarrow> bank_question list option \<Rightarrow> string \<Rightarrow> string \<Rightarrow> string \<Rightarrow> store \<Rightarrow>
   (http_error + generated_quiz) \<times> store" where
  "generate_quiz now picks bank_file uid tm level0 s =
     (let level = str_capitalize level0
      in if level \<notin> set [''Easy'', ''Medium'', ''Hard''] then (Inl (HTTPException 400), s)
         else
           let s1 = (case get_quiz_progress uid tm s of
                       None \<Rightarrow> snd (create_quiz_progress now uid tm s)
                     | Some _ \<Rightarrow> s)
           in case bank_file of
                None \<Rightarrow> (Inl (HTTPException 404), s1)
              | Some bank \<Rightarrow>
                  (let pool = team_level_questions bank tm level
                   in if pool = [] then (Inl (HTTPException 404), s1)
                      else
                        let num_questions = min 10 (length pool);
                            selected_questions = random_sample picks pool num_questions;
                            quiz_display = map quiz_display_of selected_questions
                        in (Inr \<lparr>gq_level = level, gq_team = tm, questions = quiz_display,
                                  total_questions = length quiz_display,
                                  total_available = length pool\<rparr>, s1)))"

definition reset_question_pool :: "string \<Rightarrow> string \<Rightarrow> store \<Rightarrow> (http_error + bool) \<times> store" where
  "reset_question_pool uid tm s = (Inr True, reset_asked_questions uid tm s)"

subsection \<open>Request handlers: predictions\<close>

record prediction_submit =
  ps_user_id :: string
  ps_team1 :: string
  ps_team2 :: string
  ps_sport :: string
  ps_user_prediction :: string

record prediction_result =
  pr_user_prediction :: string
  system_outcome :: string
  pr_is_correct :: bool
  pr_points_earned :: int
  pr_confidence :: int

definition submit_prediction ::
  "timestamp \<Rightarrow> real \<Rightarrow> string \<Rightarrow> fault \<Rightarrow> prediction_submit \<Rightarrow> store \<Rightarrow>
   (http_error + prediction_result) \<times> store" where
  \<comment> \<open>\<open>save_prediction\<close> catches its own exceptions, and its answer is not looked at\<close>
  "submit_prediction now rand expl fault req s =
     (let system_prediction =
            generate_prediction rand (ps_team1 req) (ps_team2 req) (ps_sport req);
          outcome = predicted_winner system_prediction;
          (correct, pts) = evaluate_prediction (ps_user_prediction req) outcome (ps_sport req);
          (result, s') =
            save_prediction now fault (ps_user_id req) (ps_team1 req) (ps_team2 req)
              (ps_user_prediction req) outcome pts expl (Some (ps_sport req)) s
      in (Inr \<lparr>pr_user_prediction = ps_user_prediction req, system_outcome = outcome,
                pr_is_correct = correct, pr_points_earned = pts,
                pr_confidence = confidence system_prediction\<rparr>, s'))"

subsection \<open>Observations and sample data used in the statements\<close>

definition asked_rows :: "string \<Rightarrow> string \<Rightarrow> store \<Rightarrow> asked_row list" where
  "asked_rows uid tm s = filter (\<lambda>r. aq_user_id r = uid \<and> aq_team r = tm) (asked_questions s)"

definition progress_rows :: "string \<Rightarrow> string \<Rightarrow> store \<Rightarrow> progress_row list" where
  "progress_rows uid tm s = filter (\<lambda>r. qp_user_id r = uid \<and> qp_team r = tm) (quiz_progress s)"

definition unique_progress :: "store \<Rightarrow> bool" where
  \<comment> \<open>the table constraint \<open>UNIQUE(user_id, team)\<close> of \<open>quiz_progress\<close>\<close>
  "unique_progress s = distinct (map (\<lambda>r. (qp_user_id r, qp_team r)) (quiz_progress s))"

definition sample_asked :: store where
  "sample_asked =
     record_asked_question 3 ''bob'' ''Lakers'' ''q2''
       (record_asked_question 2 ''alice'' ''Celtics'' ''q9''
          (record_asked_question 1 ''alice'' ''Lakers'' ''q1'' init_db))"

definition sample_board :: store where
  "sample_board =
     update_user_points 60 ''carol'' 50
       (update_user_points 50 ''bob'' 70
          (update_user_points 40 ''alice'' 50
             (snd (create_user 30 ''carol'' ''Carol'' ''Miami Heat''
                (snd (create_user 20 ''bob'' ''Bob'' ''Chicago Bulls''
                   (snd (create_user 10 ''alice'' ''Alice'' ''Boston Celtics'' init_db))))))))"


definition balance :: "string \<Rightarrow> store \<Rightarrow> int option" where
  \<comment> \<open>the \<open>total_points\<close> cell of the user's row, \<open>None\<close> without a row\<close>
  "balance uid s = map_option total_points (get_user uid s)"


definition sample_bank :: "bank_question list" where
  "sample_bank =
     map (\<lambda>(i, k). \<lparr>bq_id = ''lakers_easy_'' @ i, bq_level = ''Easy'', bq_team = ''Lakers'',
                      bq_question = ''Question '' @ i, bq_options = [''A'', ''B'', ''C'', ''D''],
                      correctAnswerIndex = Some k, bq_explanation = ''Because.''\<rparr>)
         [(''1'', 0), (''2'', 1), (''3'', 2), (''4'', 3), (''5'', 0)]"





text \<open>
  The operations of \<open>Database\<close> that write to the store, as a datatype, so that a history
  of calls is a list (for the two methods that bind a level, the statement a call that
  did not raise has run); \<open>awarded uid op\<close> is the amount the call \<open>op\<close> awards to the user
  id \<open>uid\<close> (the points of \<open>update_user_points\<close>, \<open>add_quiz_points\<close> and of a
  \<open>save_prediction\<close> that commits).
\<close>

datatype store_op =
    CreateUser timestamp string string string
  | UpdateUserPoints timestamp string int
  | AddQuizPoints timestamp string int
  | AddBadge string string
  | CreateQuizProgress timestamp string string
  | UpdateQuizProgress timestamp string string level_val int int int
  | CompleteLevel timestamp string string level_val py_float
  | AddQuizAttempt timestamp string string string real string string
  | AddPrediction timestamp string string string string string string
  | AddChatMessage timestamp string string string "string option"
  | RecordAskedQuestion timestamp string string string
  | ResetAskedQuestions string string
  | SavePrediction timestamp fault string string string string string int string "string option"

fun apply_op :: "store_op \<Rightarrow> store \<Rightarrow> store" where
  "apply_op (CreateUser now uid uname fav) s = snd (create_user now uid uname fav s)"
| "apply_op (UpdateUserPoints now uid p) s = update_user_points now uid p s"
| "apply_op (AddQuizPoints now uid p) s = add_quiz_points now uid p s"
| "apply_op (AddBadge uid badge) s = add_badge uid badge s"
| "apply_op (CreateQuizProgress now uid tm) s = snd (create_quiz_progress now uid tm s)"
| "apply_op (UpdateQuizProgress now uid tm lvl i sc c) s =
     sql_update_quiz_progress now uid tm lvl i sc c s"
| "apply_op (CompleteLevel now uid tm lvl sc) s = sql_replace_completed_level now uid tm lvl sc s"
| "apply_op (AddQuizAttempt now uid tm d sc q a) s = add_quiz_attempt now uid tm d sc q a s"
| "apply_op (AddPrediction now uid t1 t2 w sc e) s = snd (add_prediction now uid t1 t2 w sc e s)"
| "apply_op (AddChatMessage now uid m r tool) s = add_chat_message now uid m r tool s"
| "apply_op (RecordAskedQuestion now uid tm qid) s = record_asked_question now uid tm qid s"
| "apply_op (ResetAskedQuestions uid tm) s = reset_asked_questions uid tm s"
| "apply_op (SavePrediction now fl uid t1 t2 up so p e sp) s =
     snd (save_prediction now fl uid t1 t2 up so p e sp s)"

fun awarded :: "string \<Rightarrow> store_op \<Rightarrow> int" where
  "awarded uid (UpdateUserPoints now u p) = (if u = uid then p else 0)"
| "awarded uid (AddQuizPoints now u p) = (if u = uid then p else 0)"
| "awarded uid (SavePrediction now fl u t1 t2 up so p e sp) = (if u = uid \<and> fl = NoFault then p else 0)"
| "awarded uid _ = 0"

definition run_ops :: "store_op list \<Rightarrow> store \<Rightarrow> store" where
  "run_ops ops s = fold apply_op ops s"

definition sample_prediction_submit :: prediction_submit where
  "sample_prediction_submit =
     \<lparr>ps_user_id = ''bob'', ps_team1 = ''Los Angeles Lakers'', ps_team2 = ''Boston Celtics'',
      ps_sport = ''nba'', ps_user_prediction = ''Los Angeles Lakers''\<rparr>"

section \<open>Properties\<close>

subsection \<open>Lists and lookups\<close>

lemma find_SomeD: "find P xs = Some x \<Longrightarrow> P x \<and> x \<in> set xs"
  by (induction xs) (auto split: if_splits)

lemma find_Some_filter: "find P xs = Some x \<Longrightarrow> filter P xs \<noteq> []"
  by (induction xs) (auto split: if_splits)

lemma find_snoc_hit: "P x \<Longrightarrow> find P (xs @ [x]) \<noteq> None"
  by (induction xs) auto

lemma distinct_key_filter_le1:
  "distinct (map f xs) \<Longrightarrow> length (filter (\<lambda>r. f r = k) xs) \<le> 1"
proof (induction xs)
  case Nil
  then show ?case by simp
next
  case (Cons x xs)
  show ?case
  proof (cases "f x = k")
    case True
    with Cons.prems have "k \<notin> f ` set xs" by auto
    then have "filter (\<lambda>r. f r = k) xs = []"
      by (auto simp: filter_empty_conv)
    with True show ?thesis by simp
  next
    case False
    with Cons show ?thesis by simp
  qed
qed

subsection \<open>Prediction evaluation\<close>

text \<open>
  Claim C5. A prediction is correct exactly when the user's text equals the system
  outcome as a string. A correct call earns 50 points in soccer when it is \<open>"Draw"\<close>, 30
  in soccer otherwise and 25 in every other sport; an incorrect call earns 0 and is
  reported with \<open>is_correct\<close> false.
\<close>

theorem evaluate_prediction_rule:
  "evaluate_prediction up so sport =
     (up = so,
      if up = so
      then (if sport = ''soccer'' then (if up = ''Draw'' then 50 else 30) else 25)
      else 0)"
  by (auto simp: evaluate_prediction_def Let_def)

text \<open>The scenarios of the specification, obtained from the rule.\<close>

theorem evaluate_prediction_rule_witness:
  "evaluate_prediction ''Draw'' ''Draw'' ''soccer'' = (True, 50) \<and>
   evaluate_prediction ''Draw'' ''Arsenal'' ''soccer'' = (False, 0) \<and>
   evaluate_prediction ''Arsenal'' ''Arsenal'' ''soccer'' = (True, 30) \<and>
   evaluate_prediction ''Boston Celtics'' ''Boston Celtics'' ''nba'' = (True, 25) \<and>
   evaluate_prediction ''Boston Celtics'' ''Miami Heat'' ''nba'' = (False, 0)"
  by (simp add: evaluate_prediction_rule)

subsection \<open>Resetting asked questions\<close>

text \<open>
  Claim C10. \<open>reset_asked_questions\<close> for a (user, team) pair deletes every asked-question
  row of that pair; the rows of every other pair, and the tables of users (points and
  badges), quiz progress, completed levels, predictions, quiz history and chat history
  are the same before and after.
\<close>

theorem reset_asked_questions_frame:
  "asked_rows uid tm (reset_asked_questions uid tm s) = [] \<and>
   get_asked_questions uid tm (reset_asked_questions uid tm s) = [] \<and>
   (\<forall>u t. (u \<noteq> uid \<or> t \<noteq> tm) \<longrightarrow>
      asked_rows u t (reset_asked_questions uid tm s) = asked_rows u t s \<and>
      get_asked_questions u t (reset_asked_questions uid tm s) = get_asked_questions u t s) \<and>
   users (reset_asked_questions uid tm s) = users s \<and>
   quiz_progress (reset_asked_questions uid tm s) = quiz_progress s \<and>
   completed_levels (reset_asked_questions uid tm s) = completed_levels s \<and>
   predictions (reset_asked_questions uid tm s) = predictions s \<and>
   quiz_history (reset_asked_questions uid tm s) = quiz_history s \<and>
   chat_history (reset_asked_questions uid tm s) = chat_history s"
proof -
  have own: "asked_rows uid tm (reset_asked_questions uid tm s) = []"
    by (simp add: asked_rows_def reset_asked_questions_def)
  have other: "asked_rows u t (reset_asked_questions uid tm s) = asked_rows u t s"
    if "u \<noteq> uid \<or> t \<noteq> tm" for u t
  proof -
    have "filter (\<lambda>r. aq_user_id r = u \<and> aq_team r = t)
            (filter (\<lambda>r. \<not> (aq_user_id r = uid \<and> aq_team r = tm)) xs) =
          filter (\<lambda>r. aq_user_id r = u \<and> aq_team r = t) xs" for xs :: "asked_row list"
      using that by (induction xs) auto
    then show ?thesis
      by (simp add: asked_rows_def reset_asked_questions_def)
  qed
  have ids: "get_asked_questions u t x = map question_id (asked_rows u t x)" for u t x
    by (simp add: get_asked_questions_def asked_rows_def)
  show ?thesis
    using own other by (simp add: ids) (simp add: reset_asked_questions_def)
qed

text \<open>
  Three recorded questions, two pairs of alice and one of bob: resetting (alice, Lakers)
  empties that pair and keeps the other two.
\<close>

theorem reset_asked_questions_frame_witness:
  "get_asked_questions ''alice'' ''Lakers'' sample_asked = [''q1''] \<and>
   get_asked_questions ''alice'' ''Lakers''
     (reset_asked_questions ''alice'' ''Lakers'' sample_asked) = [] \<and>
   get_asked_questions ''alice'' ''Celtics''
     (reset_asked_questions ''alice'' ''Lakers'' sample_asked) = [''q9''] \<and>
   get_asked_questions ''bob'' ''Lakers''
     (reset_asked_questions ''alice'' ''Lakers'' sample_asked) = [''q2'']"
proof -
  have before: "get_asked_questions ''alice'' ''Lakers'' sample_asked = [''q1''] \<and>
      get_asked_questions ''alice'' ''Celtics'' sample_asked = [''q9''] \<and>
      get_asked_questions ''bob'' ''Lakers'' sample_asked = [''q2'']"
    by (simp add: sample_asked_def record_asked_question_def init_db_def
        get_asked_questions_def)
  show ?thesis
    using before reset_asked_questions_frame [of "''alice''" "''Lakers''" sample_asked]
    by simp
qed

subsection \<open>Initialising quiz progress\<close>

lemma get_quiz_progress_after_create:
  "get_quiz_progress uid tm (snd (create_quiz_progress now uid tm s)) \<noteq> None"
proof (cases "get_quiz_progress uid tm s")
  case None
  then show ?thesis
    by (simp add: create_quiz_progress_def get_quiz_progress_def find_snoc_hit)
next
  case (Some p)
  then show ?thesis
    by (simp add: create_quiz_progress_def)
qed

lemma create_quiz_progress_again:
  "get_quiz_progress uid tm s \<noteq> None \<Longrightarrow>
   create_quiz_progress now uid tm s = (\<lparr>cp_success = True, cp_existing = True\<rparr>, s)"
  by (auto simp: create_quiz_progress_def split: option.splits)

lemma unique_progress_init_db: "unique_progress init_db"
  by (simp add: unique_progress_def init_db_def)

lemma unique_progress_create:
  "unique_progress s \<Longrightarrow> unique_progress (snd (create_quiz_progress now uid tm s))"
  by (auto simp: unique_progress_def create_quiz_progress_def get_quiz_progress_def
      find_None_iff split: option.splits)

lemma progress_keys_update:
  "map (\<lambda>r. (qp_user_id r, qp_team r))
       (quiz_progress (sql_update_quiz_progress now uid tm lvl i sc c s)) =
   map (\<lambda>r. (qp_user_id r, qp_team r)) (quiz_progress s)"
  by (simp add: sql_update_quiz_progress_def comp_def if_distrib cong: if_cong)

lemma unique_progress_update:
  "unique_progress s \<Longrightarrow> unique_progress (sql_update_quiz_progress now uid tm lvl i sc c s)"
  by (simp add: unique_progress_def progress_keys_update)

text \<open>
  Claim C7. Initialising quiz progress twice for the same (user, team): the second call
  changes nothing in the store (the row keeps every field, its timestamps included) and
  answers success (\<open>{"success": True, "existing": True}\<close> from the database, success from
  the endpoint); and, the table satisfying its \<open>UNIQUE(user_id, team)\<close> constraint,
  exactly one row of that pair is there afterwards.
\<close>

theorem create_quiz_progress_idempotent:
  "create_quiz_progress now2 uid tm (snd (create_quiz_progress now1 uid tm s)) =
     (\<lparr>cp_success = True, cp_existing = True\<rparr>, snd (create_quiz_progress now1 uid tm s)) \<and>
   init_quiz_progress now2 uid tm (snd (init_quiz_progress now1 uid tm s)) =
     (Inr True, snd (init_quiz_progress now1 uid tm s)) \<and>
   (unique_progress s \<longrightarrow>
      length (progress_rows uid tm
                (snd (create_quiz_progress now2 uid tm
                        (snd (create_quiz_progress now1 uid tm s))))) = 1)"
proof -
  let ?s1 = "snd (create_quiz_progress now1 uid tm s)"
  have again: "create_quiz_progress now2 uid tm ?s1 = (\<lparr>cp_success = True, cp_existing = True\<rparr>, ?s1)"
    by (rule create_quiz_progress_again) (rule get_quiz_progress_after_create)
  have one: "length (progress_rows uid tm ?s1) = 1" if u: "unique_progress s"
  proof -
    have "unique_progress ?s1" using u by (rule unique_progress_create)
    then have "length (filter (\<lambda>r. (qp_user_id r, qp_team r) = (uid, tm)) (quiz_progress ?s1)) \<le> 1"
      unfolding unique_progress_def by (rule distinct_key_filter_le1)
    then have le: "length (progress_rows uid tm ?s1) \<le> 1"
      by (simp add: progress_rows_def)
    obtain p where "get_quiz_progress uid tm ?s1 = Some p"
      using get_quiz_progress_after_create [of uid tm now1 s] by auto
    then have "progress_rows uid tm ?s1 \<noteq> []"
      unfolding get_quiz_progress_def progress_rows_def by (rule find_Some_filter)
    with le show ?thesis by (cases "progress_rows uid tm ?s1") auto
  qed
  show ?thesis
    using again one by (simp add: init_quiz_progress_def)
qed

text \<open>
  On the fresh database: two initialisations at times 10 and 20 leave the one row written
  at time 10.
\<close>

theorem create_quiz_progress_idempotent_witness:
  "unique_progress init_db \<and>
   length (progress_rows ''alice'' ''Lakers''
             (snd (create_quiz_progress 20 ''alice'' ''Lakers''
                     (snd (create_quiz_progress 10 ''alice'' ''Lakers'' init_db))))) = 1 \<and>
   quiz_progress (snd (create_quiz_progress 20 ''alice'' ''Lakers''
                         (snd (create_quiz_progress 10 ''alice'' ''Lakers'' init_db)))) =
     [\<lparr>qp_user_id = ''alice'', qp_team = ''Lakers'', current_level = LInt 1,
       current_question_index = 0, level_score = 0, total_correct = 0,
       started_at = 10, last_updated = 10\<rparr>]"
proof -
  have first: "snd (create_quiz_progress 10 ''alice'' ''Lakers'' init_db) =
      init_db\<lparr>quiz_progress :=
        [\<lparr>qp_user_id = ''alice'', qp_team = ''Lakers'', current_level = LInt 1,
          current_question_index = 0, level_score = 0, total_correct = 0,
          started_at = 10, last_updated = 10\<rparr>]\<rparr>"
    by (simp add: create_quiz_progress_def get_quiz_progress_def init_db_def)
  show ?thesis
    using unique_progress_init_db
      create_quiz_progress_idempotent [of 20 "''alice''" "''Lakers''" 10 init_db]
    by (simp add: first progress_rows_def)
qed

subsection \<open>The generated outcome\<close>

lemma predicted_winner_cases:
  "predicted_winner (generate_prediction rand team1 team2 sport) = team1 \<or>
   predicted_winner (generate_prediction rand team1 team2 sport) = team2"
  by (simp add: generate_prediction_def Let_def)

lemma submit_prediction_result:
  "fst (submit_prediction now rand expl fl req s) =
     Inr \<lparr>pr_user_prediction = ps_user_prediction req,
          system_outcome = predicted_winner (generate_prediction rand (ps_team1 req) (ps_team2 req) (ps_sport req)),
          pr_is_correct = fst (evaluate_prediction (ps_user_prediction req)
             (predicted_winner (generate_prediction rand (ps_team1 req) (ps_team2 req) (ps_sport req))) (ps_sport req)),
          pr_points_earned = snd (evaluate_prediction (ps_user_prediction req)
             (predicted_winner (generate_prediction rand (ps_team1 req) (ps_team2 req) (ps_sport req))) (ps_sport req)),
          pr_confidence = confidence (generate_prediction rand (ps_team1 req) (ps_team2 req) (ps_sport req))\<rparr>"
  by (simp add: submit_prediction_def Let_def split: prod.splits)

text \<open>
  Claim C8, as amended. The generated outcome is always one of the two team names of the
  request. It is \<open>"Draw"\<close> only when a team of the request is itself named \<open>"Draw"\<close>;
  when neither is, a user prediction \<open>"Draw"\<close> is evaluated as incorrect with 0 points, in
  \<open>evaluate_prediction\<close> and in the answer of \<open>submit_prediction\<close>, for every sport,
  every random draw and whether or not the save succeeds.
\<close>

theorem generated_winner_is_an_input_team:
  "predicted_winner (generate_prediction rand team1 team2 sport) \<in> {team1, team2} \<and>
   (team1 \<noteq> ''Draw'' \<and> team2 \<noteq> ''Draw'' \<longrightarrow>
      predicted_winner (generate_prediction rand team1 team2 sport) \<noteq> ''Draw'' \<and>
      evaluate_prediction ''Draw''
        (predicted_winner (generate_prediction rand team1 team2 sport)) sport = (False, 0) \<and>
      (\<exists>r. fst (submit_prediction now rand expl fl
                  \<lparr>ps_user_id = uid, ps_team1 = team1, ps_team2 = team2, ps_sport = sport,
                   ps_user_prediction = ''Draw''\<rparr> s) = Inr r \<and>
           \<not> pr_is_correct r \<and> pr_points_earned r = 0))"
proof -
  let ?w = "predicted_winner (generate_prediction rand team1 team2 sport)"
  have w: "?w = team1 \<or> ?w = team2"
    by (rule predicted_winner_cases)
  have "?w \<noteq> ''Draw'' \<and> evaluate_prediction ''Draw'' ?w sport = (False, 0) \<and>
      (\<exists>r. fst (submit_prediction now rand expl fl
                  \<lparr>ps_user_id = uid, ps_team1 = team1, ps_team2 = team2, ps_sport = sport,
                   ps_user_prediction = ''Draw''\<rparr> s) = Inr r \<and>
           \<not> pr_is_correct r \<and> pr_points_earned r = 0)"
    if nd: "team1 \<noteq> ''Draw'' \<and> team2 \<noteq> ''Draw''"
  proof -
    from w nd have ne: "?w \<noteq> ''Draw''" by auto
    then have ev: "evaluate_prediction ''Draw'' ?w sport = (False, 0)"
      by (auto simp: evaluate_prediction_def Let_def)
    show ?thesis
      using ne ev by (simp add: submit_prediction_result)
  qed
  with w show ?thesis by blast
qed

text \<open>Arsenal against Chelsea: either team can come out, and \<open>"Draw"\<close> never does.\<close>

theorem generated_winner_is_an_input_team_witness:
  "predicted_winner (generate_prediction (1 / 4) ''Arsenal'' ''Chelsea'' ''soccer'') = ''Arsenal'' \<and>
   predicted_winner (generate_prediction (3 / 4) ''Arsenal'' ''Chelsea'' ''soccer'') = ''Chelsea'' \<and>
   evaluate_prediction ''Draw''
     (predicted_winner (generate_prediction (3 / 4) ''Arsenal'' ''Chelsea'' ''soccer'')) ''soccer'' = (False, 0)"
proof -
  have a: "predicted_winner (generate_prediction (1 / 4) ''Arsenal'' ''Chelsea'' ''soccer'') = ''Arsenal''"
    by (simp add: generate_prediction_def team_data_of_def TEAM_RANKINGS_def team_score_def Let_def)
  have b: "predicted_winner (generate_prediction (3 / 4) ''Arsenal'' ''Chelsea'' ''soccer'') = ''Chelsea''"
    by (simp add: generate_prediction_def team_data_of_def TEAM_RANKINGS_def team_score_def Let_def)
  have c: "''Arsenal'' \<noteq> ''Draw'' \<and> ''Chelsea'' \<noteq> ''Draw''" by simp
  show ?thesis
    using a b c
      generated_winner_is_an_input_team [of "3 / 4" "''Arsenal''" "''Chelsea''" "''soccer''"]
    by blast
qed

text \<open>
  The claim as stated fails on a request whose first team is named \<open>"Draw"\<close>: with the
  random draw 0 that team wins, and the user's \<open>"Draw"\<close> is correct and earns 50 points.
\<close>

theorem draw_named_team_counterexample:
  "predicted_winner (generate_prediction 0 ''Draw'' ''Arsenal'' ''soccer'') = ''Draw'' \<and>
   fst (submit_prediction 10 0 ''text'' NoFault
          \<lparr>ps_user_id = ''alice'', ps_team1 = ''Draw'', ps_team2 = ''Arsenal'',
           ps_sport = ''soccer'', ps_user_prediction = ''Draw''\<rparr> init_db) =
     Inr \<lparr>pr_user_prediction = ''Draw'', system_outcome = ''Draw'', pr_is_correct = True,
          pr_points_earned = 50, pr_confidence = 35\<rparr>"
  by (simp add: submit_prediction_result generate_prediction_def team_data_of_def
      TEAM_RANKINGS_def team_score_def default_team_data_def evaluate_prediction_def py_int_def Let_def)

subsection \<open>Leaderboard\<close>

lemma mset_insert_desc: "mset (insert_desc r xs) = add_mset r (mset xs)"
  by (induction xs) auto

lemma set_insert_desc: "set (insert_desc r xs) = insert r (set xs)"
  by (induction xs) auto

lemma sorted_insert_desc:
  "sorted_wrt (\<lambda>a b. total_points b \<le> total_points a) xs \<Longrightarrow>
   sorted_wrt (\<lambda>a b. total_points b \<le> total_points a) (insert_desc r xs)"
  by (induction xs) (auto simp: set_insert_desc)

lemma order_by_total_points_desc_ok:
  "ordered_by_total_points_desc rows (order_by_total_points_desc rows)"
proof -
  have "mset (foldr insert_desc rows []) = mset rows \<and>
        sorted_wrt (\<lambda>a b. total_points b \<le> total_points a) (foldr insert_desc rows [])"
    by (induction rows) (simp_all add: mset_insert_desc sorted_insert_desc)
  then show ?thesis
    by (simp add: ordered_by_total_points_desc_def order_by_total_points_desc_def)
qed

lemma length_leaderboard_of: "length (leaderboard_of rows) = length rows"
  by (simp add: leaderboard_of_def)

lemma nth_leaderboard_of:
  "i < length rows \<Longrightarrow>
   leaderboard_of rows ! i =
     \<lparr>rank = int i + 1, le_user_id = user_id (rows ! i), le_username = username (rows ! i),
      points = total_points (rows ! i), team = favorite_team (rows ! i)\<rparr>"
  by (simp add: leaderboard_of_def nth_enumerate_eq)

lemma points_leaderboard_of: "map points (leaderboard_of rows) = map total_points rows"
  by (rule nth_equalityI) (simp_all add: length_leaderboard_of nth_leaderboard_of)

lemma sorted_leaderboard_of:
  "sorted_wrt (\<lambda>a b. total_points b \<le> total_points a) rows \<Longrightarrow>
   sorted_wrt (\<lambda>a b. points b \<le> points a) (leaderboard_of rows)"
  by (simp add: sorted_wrt_iff_nth_less length_leaderboard_of nth_leaderboard_of)

lemma sorted_sql_limit: "sorted_wrt P rows \<Longrightarrow> sorted_wrt P (sql_limit n rows)"
  by (simp add: sql_limit_def)

lemma length_sql_limit:
  "length (sql_limit n rows) = (if n < 0 then length rows else min (nat n) (length rows))"
  by (simp add: sql_limit_def min.commute)

text \<open>The board of any admissible answer of the query.\<close>

lemma leaderboard_of_any_order:
  assumes "ordered_by_total_points_desc us rows"
  shows "length (leaderboard_of (sql_limit n rows)) =
           (if n < 0 then length us else min (nat n) (length us))"
    and "sorted_wrt (\<lambda>a b. points b \<le> points a) (leaderboard_of (sql_limit n rows))"
    and "\<forall>i < length (leaderboard_of (sql_limit n rows)).
           rank (leaderboard_of (sql_limit n rows) ! i) = int i + 1"
proof -
  from assms have len: "length rows = length us"
    by (metis ordered_by_total_points_desc_def size_mset)
  show "length (leaderboard_of (sql_limit n rows)) =
           (if n < 0 then length us else min (nat n) (length us))"
    by (simp add: length_leaderboard_of length_sql_limit len)
  from assms have "sorted_wrt (\<lambda>a b. total_points b \<le> total_points a) rows"
    by (simp add: ordered_by_total_points_desc_def)
  then show "sorted_wrt (\<lambda>a b. points b \<le> points a) (leaderboard_of (sql_limit n rows))"
    by (intro sorted_leaderboard_of sorted_sql_limit)
  show "\<forall>i < length (leaderboard_of (sql_limit n rows)).
           rank (leaderboard_of (sql_limit n rows) ! i) = int i + 1"
    by (simp add: length_leaderboard_of nth_leaderboard_of)
qed

text \<open>
  Claim C9, as amended. The limit is bound as a signed 64-bit integer: outside that range
  the query raises \<open>OverflowError\<close> and the endpoint answers 500. Inside it, a limit
  \<open>N \<ge> 0\<close> gives \<open>min N (number of users)\<close> entries, hence at most \<open>N\<close>, and a negative limit
  is no limit to SQLite and gives every user. In both cases the entries are a prefix of
  the users ordered by \<open>total_points\<close> descending, their points are in descending order,
  and the entry at position \<open>i\<close> (counted from 0) has rank \<open>i + 1\<close>, so equal totals get
  consecutive, different ranks.
\<close>

theorem get_leaderboard_ranked:
  "(\<not> int64 limit \<longrightarrow>
      get_leaderboard limit s = Inl OverflowError \<and>
      api_get_leaderboard limit s = Inl (HTTPException 500)) \<and>
   (int64 limit \<longrightarrow>
      (\<exists>lb. get_leaderboard limit s = Inr lb \<and>
         (0 \<le> limit \<longrightarrow> int (length lb) \<le> limit \<and>
                           length lb = min (nat limit) (length (users s))) \<and>
         (limit < 0 \<longrightarrow> length lb = length (users s)) \<and>
         sorted_wrt (\<lambda>a b. points b \<le> points a) lb \<and>
         (\<forall>i < length lb. rank (lb ! i) = int i + 1) \<and>
         (\<exists>rows. ordered_by_total_points_desc (users s) rows \<and>
                 lb = leaderboard_of (sql_limit limit rows))))"
proof -
  let ?rows = "order_by_total_points_desc (users s)"
  let ?lb = "leaderboard_of (sql_limit limit ?rows)"
  have ord: "ordered_by_total_points_desc (users s) ?rows"
    by (rule order_by_total_points_desc_ok)
  have len: "length ?lb = (if limit < 0 then length (users s) else min (nat limit) (length (users s)))"
    by (rule leaderboard_of_any_order(1) [OF ord])
  have srt: "sorted_wrt (\<lambda>a b. points b \<le> points a) ?lb"
    by (rule leaderboard_of_any_order(2) [OF ord])
  have rk: "\<forall>i < length ?lb. rank (?lb ! i) = int i + 1"
    by (rule leaderboard_of_any_order(3) [OF ord])
  have le: "int (length ?lb) \<le> limit" if "0 \<le> limit"
    using that len by simp
  have inside: "\<exists>lb. get_leaderboard limit s = Inr lb \<and>
         (0 \<le> limit \<longrightarrow> int (length lb) \<le> limit \<and>
                           length lb = min (nat limit) (length (users s))) \<and>
         (limit < 0 \<longrightarrow> length lb = length (users s)) \<and>
         sorted_wrt (\<lambda>a b. points b \<le> points a) lb \<and>
         (\<forall>i < length lb. rank (lb ! i) = int i + 1) \<and>
         (\<exists>rows. ordered_by_total_points_desc (users s) rows \<and>
                 lb = leaderboard_of (sql_limit limit rows))"
    if "int64 limit"
  proof (intro exI [of _ ?lb] conjI impI)
    show "get_leaderboard limit s = Inr ?lb"
      using that by (simp add: get_leaderboard_def)
    show "\<exists>rows. ordered_by_total_points_desc (users s) rows \<and>
                 ?lb = leaderboard_of (sql_limit limit rows)"
      using ord by blast
  qed (use len srt rk le in simp_all)
  have outside: "get_leaderboard limit s = Inl OverflowError \<and>
      api_get_leaderboard limit s = Inl (HTTPException 500)" if "\<not> int64 limit"
    using that by (simp add: get_leaderboard_def api_get_leaderboard_def)
  from inside outside show ?thesis by blast
qed

text \<open>
  Alice 50, Bob 70, Carol 50: the top two are Bob and Alice with ranks 1 and 2; with limit
  3 Alice and Carol, both at 50, get ranks 2 and 3; the limit \<open>2^63\<close> is refused.
\<close>

lemma users_sample_board:
  "users sample_board =
     [\<lparr>user_id = ''alice'', username = ''Alice'', favorite_team = ''Boston Celtics'',
       total_points = 50, badges = [], created_at = 10, last_interaction = 40\<rparr>,
      \<lparr>user_id = ''bob'', username = ''Bob'', favorite_team = ''Chicago Bulls'',
       total_points = 70, badges = [], created_at = 20, last_interaction = 50\<rparr>,
      \<lparr>user_id = ''carol'', username = ''Carol'', favorite_team = ''Miami Heat'',
       total_points = 50, badges = [], created_at = 30, last_interaction = 60\<rparr>]"
  by (simp add: sample_board_def update_user_points_def create_user_def get_user_def init_db_def)

lemma leaderboard_sample_board:
  "leaderboard_of (sql_limit 3 (order_by_total_points_desc (users sample_board))) =
     [\<lparr>rank = 1, le_user_id = ''bob'', le_username = ''Bob'', points = 70,
       team = ''Chicago Bulls''\<rparr>,
      \<lparr>rank = 2, le_user_id = ''alice'', le_username = ''Alice'', points = 50,
       team = ''Boston Celtics''\<rparr>,
      \<lparr>rank = 3, le_user_id = ''carol'', le_username = ''Carol'', points = 50,
       team = ''Miami Heat''\<rparr>]"
  "leaderboard_of (sql_limit 2 (order_by_total_points_desc (users sample_board))) =
     [\<lparr>rank = 1, le_user_id = ''bob'', le_username = ''Bob'', points = 70,
       team = ''Chicago Bulls''\<rparr>,
      \<lparr>rank = 2, le_user_id = ''alice'', le_username = ''Alice'', points = 50,
       team = ''Boston Celtics''\<rparr>]"
  "length (leaderboard_of (sql_limit (- 1) (order_by_total_points_desc (users sample_board)))) = 3"
  by (simp_all add: users_sample_board order_by_total_points_desc_def sql_limit_def
      leaderboard_of_def enumerate_eq_zip upt_rec)

theorem get_leaderboard_ranked_witness:
  "int64 3 \<and> \<not> int64 (2 ^ 63) \<and>
   (\<exists>lb. get_leaderboard 3 sample_board = Inr lb \<and> length lb = 3 \<and>
      map le_user_id lb = [''bob'', ''alice'', ''carol''] \<and>
      map points lb = [70, 50, 50] \<and>
      rank (lb ! 0) = 1 \<and> rank (lb ! 1) = 2 \<and> rank (lb ! 2) = 3) \<and>
   get_leaderboard (2 ^ 63) sample_board = Inl OverflowError \<and>
   api_get_leaderboard (2 ^ 63) sample_board = Inl (HTTPException 500)"
proof -
  have in3: "int64 3" and out: "\<not> int64 (2 ^ 63)"
    by (simp_all add: int64_def)
  from get_leaderboard_ranked [of 3 sample_board] in3
  obtain lb where lb: "get_leaderboard 3 sample_board = Inr lb"
    and len: "length lb = min (nat 3) (length (users sample_board))"
    and rk: "\<forall>i < length lb. rank (lb ! i) = int i + 1"
    by auto
  from len have l3: "length lb = 3"
    by (simp add: users_sample_board)
  from lb in3 have val: "lb = leaderboard_of (sql_limit 3 (order_by_total_points_desc (users sample_board)))"
    by (simp add: get_leaderboard_def)
  have vals: "map le_user_id lb = [''bob'', ''alice'', ''carol''] \<and> map points lb = [70, 50, 50]"
    by (simp add: val leaderboard_sample_board)
  from rk l3 have ranks: "rank (lb ! 0) = 1 \<and> rank (lb ! 1) = 2 \<and> rank (lb ! 2) = 3"
    by simp
  from get_leaderboard_ranked [of "2 ^ 63" sample_board] out
  have big: "get_leaderboard (2 ^ 63) sample_board = Inl OverflowError \<and>
      api_get_leaderboard (2 ^ 63) sample_board = Inl (HTTPException 500)"
    by blast
  from in3 out lb l3 vals ranks big show ?thesis
    by (intro conjI exI [of _ lb]) simp_all
qed

text \<open>The claim as stated fails at the limit -1: three users are returned.\<close>

theorem negative_limit_counterexample:
  "map_sum id length (get_leaderboard (- 1) sample_board) = Inr 3 \<and> \<not> (3::int) \<le> - 1"
  by (simp add: get_leaderboard_def int64_def leaderboard_sample_board)

subsection \<open>Submitting a quiz\<close>























subsection \<open>Question selection\<close>

lemma length_random_sample: "length (random_sample picks pool k) = min k (length pool)"
proof (induction k arbitrary: picks pool)
  case 0
  then show ?case by simp
next
  case (Suc k)
  show ?case
  proof (cases "pool = []")
    case True
    then show ?thesis by simp
  next
    case False
    define j where "j = (case picks of [] \<Rightarrow> 0 | p # _ \<Rightarrow> p mod length pool)"
    from False have j: "j < length pool"
      by (auto simp: j_def split: list.splits)
    then have "length (take j pool @ drop (Suc j) pool) = length pool - 1"
      by simp
    with False j show ?thesis
      by (simp add: Suc.IH Let_def j_def [symmetric])
  qed
qed

lemma mset_random_sample: "mset (random_sample picks pool k) \<subseteq># mset pool"
proof (induction k arbitrary: picks pool)
  case 0
  then show ?case by simp
next
  case (Suc k)
  show ?case
  proof (cases "pool = []")
    case True
    then show ?thesis by simp
  next
    case False
    define j where "j = (case picks of [] \<Rightarrow> 0 | p # _ \<Rightarrow> p mod length pool)"
    define rest where "rest = take j pool @ drop (Suc j) pool"
    from False have j: "j < length pool"
      by (auto simp: j_def split: list.splits)
    then have "pool = take j pool @ pool ! j # drop (Suc j) pool"
      by (rule id_take_nth_drop)
    then have "mset pool = add_mset (pool ! j) (mset rest)"
      by (metis mset.simps(2) mset_append rest_def union_mset_add_mset_right)
    moreover have "mset (random_sample (tl picks) rest k) \<subseteq># mset rest"
      by (rule Suc.IH)
    moreover have "random_sample picks pool (Suc k) = pool ! j # random_sample (tl picks) rest k"
      using False by (simp add: Let_def j_def rest_def)
    ultimately show ?thesis
      by (simp add: mset_subset_eq_add_mset_cancel)
  qed
qed

lemma get_quiz_progress_asked:
  "get_quiz_progress uid tm (s\<lparr>asked_questions := a\<rparr>) = get_quiz_progress uid tm s"
  by (simp add: get_quiz_progress_def)

lemma generate_quiz_asked:
  "fst (generate_quiz now picks bank_file uid tm level (s\<lparr>asked_questions := a\<rparr>)) =
   fst (generate_quiz now picks bank_file uid tm level s)"
  by (simp add: generate_quiz_def get_quiz_progress_asked Let_def split: option.splits)

lemma generate_quiz_keeps_asked:
  "asked_questions (snd (generate_quiz now picks bank_file uid tm level s)) = asked_questions s"
  by (simp add: generate_quiz_def create_quiz_progress_def Let_def split: option.splits)

lemma generate_quiz_questions:
  assumes "fst (generate_quiz now picks (Some bank) uid tm level s) = Inr quiz"
  shows "questions quiz =
     map quiz_display_of
       (random_sample picks (team_level_questions bank tm (str_capitalize level))
          (min 10 (length (team_level_questions bank tm (str_capitalize level)))))"
  using assms by (auto simp: generate_quiz_def Let_def split: if_splits option.splits)

text \<open>
  What \<open>generate_quiz\<close> does in general. It never reads the asked-question records: its
  answer is the same whatever they hold, and it leaves them as they are. The questions
  of an answer are \<open>min 10 n\<close> questions drawn without replacement from all \<open>n\<close> questions
  of the bank for the team and the capitalised level: as a multiset they are contained in
  that pool, so no position of the pool is returned twice.
\<close>

lemma generate_quiz_draws_from_full_pool:
  "fst (generate_quiz now picks bank_file uid tm level (s\<lparr>asked_questions := a\<rparr>)) =
     fst (generate_quiz now picks bank_file uid tm level s) \<and>
   asked_questions (snd (generate_quiz now picks bank_file uid tm level s)) = asked_questions s \<and>
   (\<forall>bank quiz.
      bank_file = Some bank \<and> fst (generate_quiz now picks bank_file uid tm level s) = Inr quiz \<longrightarrow>
      mset (questions quiz) \<subseteq>#
        mset (map quiz_display_of (team_level_questions bank tm (str_capitalize level))) \<and>
      length (questions quiz) =
        min 10 (length (team_level_questions bank tm (str_capitalize level))))"
proof -
  have "mset (questions quiz) \<subseteq>#
          mset (map quiz_display_of (team_level_questions bank tm (str_capitalize level))) \<and>
        length (questions quiz) =
          min 10 (length (team_level_questions bank tm (str_capitalize level)))"
    if "fst (generate_quiz now picks (Some bank) uid tm level s) = Inr quiz" for bank quiz
  proof -
    let ?pool = "team_level_questions bank tm (str_capitalize level)"
    have q: "questions quiz = map quiz_display_of (random_sample picks ?pool (min 10 (length ?pool)))"
      using that by (rule generate_quiz_questions)
    have "mset (random_sample picks ?pool (min 10 (length ?pool))) \<subseteq># mset ?pool"
      by (rule mset_random_sample)
    then have "image_mset quiz_display_of (mset (random_sample picks ?pool (min 10 (length ?pool))))
        \<subseteq># image_mset quiz_display_of (mset ?pool)"
      by (rule image_mset_subseteq_mono)
    then show ?thesis
      by (simp add: q length_random_sample)
  qed
  then show ?thesis
    by (auto simp: generate_quiz_asked generate_quiz_keeps_asked)
qed


lemma random_sample_numeral:
  "random_sample picks pool (numeral v) =
     (if pool = [] then []
      else
        let j = (case picks of [] \<Rightarrow> 0 | p # _ \<Rightarrow> p mod length pool)
        in pool ! j # random_sample (tl picks) (take j pool @ drop (Suc j) pool) (pred_numeral v))"
  by (simp add: numeral_eq_Suc)

lemma capitalize_easy: "str_capitalize ''easy'' = ''Easy''" "str_capitalize ''EASY'' = ''Easy''"
  by (simp_all add: str_capitalize_def upper_chr_def lower_chr_def ascii_uppercase_def
      ascii_lowercase_def)

lemma sample_bank_pool: "team_level_questions sample_bank ''Lakers'' ''Easy'' = sample_bank"
  by (simp add: team_level_questions_def sample_bank_def)

lemma sample_bank_length: "length sample_bank = 5" "sample_bank \<noteq> []"
  by (simp_all add: sample_bank_def)

lemma sample_bank_ids:
  "map bq_id sample_bank =
     [''lakers_easy_1'', ''lakers_easy_2'', ''lakers_easy_3'', ''lakers_easy_4'', ''lakers_easy_5'']"
  by (simp add: sample_bank_def)

lemma q_id_display: "map (q_id \<circ> quiz_display_of) qs = map bq_id qs"
  by (simp add: quiz_display_of_def)

lemma random_sample_first_all:
  "random_sample [0] [a, b, c, d, e] 5 = [a, b, c, d, e]"
  by (simp add: random_sample_numeral Let_def)

lemma generate_quiz_sample:
  "fst (generate_quiz now picks (Some sample_bank) uid ''Lakers'' ''easy'' s) =
     Inr \<lparr>gq_level = ''Easy'', gq_team = ''Lakers'',
          questions = map quiz_display_of (random_sample picks sample_bank 5),
          total_questions = length (random_sample picks sample_bank 5), total_available = 5\<rparr>"
  by (simp add: generate_quiz_def capitalize_easy sample_bank_pool sample_bank_length Let_def
      split: option.splits)


lemma random_sample_sample_bank:
  "map bq_id (random_sample [0] sample_bank 5) =
     [''lakers_easy_1'', ''lakers_easy_2'', ''lakers_easy_3'', ''lakers_easy_4'', ''lakers_easy_5'']"
proof -
  obtain a b c d e where abc: "sample_bank = [a, b, c, d, e]"
    by (simp add: sample_bank_def)
  show ?thesis
    using sample_bank_ids by (simp add: abc random_sample_first_all)
qed

lemma random_sample_second:
  "random_sample [3, 2] [a, b, c, d, e] 5 = [d, c, a, b, e]"
  by (simp add: random_sample_numeral Let_def)

lemma random_sample_sample_bank_second:
  "map bq_id (random_sample [3, 2] sample_bank 5) =
     [''lakers_easy_4'', ''lakers_easy_3'', ''lakers_easy_1'', ''lakers_easy_2'', ''lakers_easy_5'']"
proof -
  obtain a b c d e where abc: "sample_bank = [a, b, c, d, e]"
    by (simp add: sample_bank_def)
  show ?thesis
    using sample_bank_ids by (simp add: abc random_sample_second)
qed

text \<open>
  The handler answers every request: 400 for a level that is not Easy, Medium or Hard
  after capitalisation, 404 when the bank file is missing or holds no question of the team
  and level, and otherwise \<open>min 10 n\<close> questions of the \<open>n\<close> in the pool.
\<close>

lemma generate_quiz_answer:
  "fst (generate_quiz now picks bank_file uid tm level s) =
     (if str_capitalize level \<notin> set [''Easy'', ''Medium'', ''Hard''] then Inl (HTTPException 400)
      else case bank_file of
             None \<Rightarrow> Inl (HTTPException 404)
           | Some bank \<Rightarrow>
               if team_level_questions bank tm (str_capitalize level) = []
               then Inl (HTTPException 404)
               else Inr \<lparr>gq_level = str_capitalize level, gq_team = tm,
                         questions = map quiz_display_of
                           (random_sample picks (team_level_questions bank tm (str_capitalize level))
                              (min 10 (length (team_level_questions bank tm (str_capitalize level))))),
                         total_questions =
                           min 10 (length (team_level_questions bank tm (str_capitalize level))),
                         total_available =
                           length (team_level_questions bank tm (str_capitalize level))\<rparr>)"
  by (simp add: generate_quiz_def Let_def length_random_sample split: option.splits)

text \<open>
  Claim C2 does not hold of the code. The asked-question table is declared to prevent the
  same question from being asked twice to a user for a team, but \<open>generate_quiz\<close> neither
  records the questions it shows nor excludes recorded ones. On a fresh database with a
  bank of five Easy questions for the Lakers, a first request of alice returns the five
  questions and leaves the asked-question table empty, and a second request, with no reset
  in between, returns the same five questions again. When \<open>lakers_easy_1\<close> is recorded as
  asked for (alice, Lakers) through \<open>record_asked_question\<close>, the next request still
  returns it.
\<close>

theorem generate_quiz_repeats_questions:
  "map_sum id (\<lambda>quiz. map q_id (questions quiz))
     (fst (generate_quiz 10 [0] (Some sample_bank) ''alice'' ''Lakers'' ''easy'' init_db)) =
     Inr [''lakers_easy_1'', ''lakers_easy_2'', ''lakers_easy_3'', ''lakers_easy_4'', ''lakers_easy_5''] \<and>
   asked_questions
     (snd (generate_quiz 10 [0] (Some sample_bank) ''alice'' ''Lakers'' ''easy'' init_db)) = [] \<and>
   map_sum id (\<lambda>quiz. map q_id (questions quiz))
     (fst (generate_quiz 20 [3, 2] (Some sample_bank) ''alice'' ''Lakers'' ''easy''
        (snd (generate_quiz 10 [0] (Some sample_bank) ''alice'' ''Lakers'' ''easy'' init_db)))) =
     Inr [''lakers_easy_4'', ''lakers_easy_3'', ''lakers_easy_1'', ''lakers_easy_2'', ''lakers_easy_5''] \<and>
   get_asked_questions ''alice'' ''Lakers''
     (record_asked_question 30 ''alice'' ''Lakers'' ''lakers_easy_1'' init_db) = [''lakers_easy_1''] \<and>
   map_sum id (\<lambda>quiz. map q_id (questions quiz))
     (fst (generate_quiz 40 [0] (Some sample_bank) ''alice'' ''Lakers'' ''easy''
        (record_asked_question 30 ''alice'' ''Lakers'' ''lakers_easy_1'' init_db))) =
     Inr [''lakers_easy_1'', ''lakers_easy_2'', ''lakers_easy_3'', ''lakers_easy_4'', ''lakers_easy_5'']"
proof -
  have asked: "asked_questions
     (snd (generate_quiz 10 [0] (Some sample_bank) ''alice'' ''Lakers'' ''easy'' init_db)) = []"
    by (simp add: generate_quiz_keeps_asked init_db_def)
  have recorded: "get_asked_questions ''alice'' ''Lakers''
     (record_asked_question 30 ''alice'' ''Lakers'' ''lakers_easy_1'' init_db) = [''lakers_easy_1'']"
    by (simp add: record_asked_question_def init_db_def get_asked_questions_def)
  from asked recorded show ?thesis
    by (simp add: generate_quiz_sample q_id_display random_sample_sample_bank
        random_sample_sample_bank_second)
qed

subsection \<open>Level transitions\<close>















subsection \<open>The point ledger and saving predictions\<close>

lemma find_map_keep:
  "(\<And>x. P (g x) = P x) \<Longrightarrow> find P (map g xs) = map_option g (find P xs)"
  by (induction xs) auto

lemma balance_map_users:
  assumes id: "\<And>r. user_id (g r) = user_id r"
      and tp: "\<And>r. user_id r = uid \<Longrightarrow> total_points (g r) = total_points r + d"
  shows "balance uid (s\<lparr>users := map g (users s)\<rparr>) = map_option (\<lambda>b. b + d) (balance uid s)"
proof -
  have f: "find (\<lambda>r. user_id r = uid) (map g (users s)) =
           map_option g (find (\<lambda>r. user_id r = uid) (users s))"
    by (rule find_map_keep) (simp add: id)
  show ?thesis
  proof (cases "find (\<lambda>r. user_id r = uid) (users s)")
    case None
    with f show ?thesis by (simp add: balance_def get_user_def)
  next
    case (Some r)
    then have "user_id r = uid" by (auto dest: find_SomeD)
    with f Some show ?thesis by (simp add: balance_def get_user_def tp)
  qed
qed

lemma balance_update_user_points_any:
  "balance uid (update_user_points now u p s) =
     map_option (\<lambda>b. b + (if u = uid then p else 0)) (balance uid s)"
  unfolding update_user_points_def by (rule balance_map_users) auto

lemma balance_credit_user:
  "balance uid (credit_user u p s) =
     map_option (\<lambda>b. b + (if u = uid then p else 0)) (balance uid s)"
  unfolding credit_user_def by (rule balance_map_users) auto

lemma balance_add_badge: "balance uid (add_badge u badge s) = balance uid s"
proof (cases "get_user u s")
  case None
  then show ?thesis by (simp add: add_badge_def)
next
  case (Some row)
  have "balance uid (s\<lparr>users := map (\<lambda>r. if user_id r = u then r\<lparr>badges := badges row @ [badge]\<rparr> else r) (users s)\<rparr>)
        = map_option (\<lambda>b. b + 0) (balance uid s)"
    by (rule balance_map_users) auto
  with Some show ?thesis
    by (simp add: add_badge_def option.map_ident)
qed

lemma find_append_Some: "find P xs = Some x \<Longrightarrow> find P (xs @ ys) = Some x"
  by (induction xs) (auto split: if_splits)

lemma balance_create_user:
  "balance uid s = Some b \<Longrightarrow> balance uid (snd (create_user now u n f s)) = Some b"
  by (auto simp: create_user_def balance_def get_user_def find_append_Some split: option.splits)

lemma balance_insert_prediction:
  "balance uid (insert_prediction now u t1 t2 up so p e sp s) = balance uid s"
  by (simp add: balance_def get_user_def insert_prediction_def)

text \<open>
  What \<open>save_prediction\<close> does: an exception at the INSERT, the UPDATE or the commit ends
  in the rollback and leaves the store as it was; without one, the prediction row is
  appended and every user row with the id is credited.
\<close>

lemma save_prediction_rollback:
  "fl \<noteq> NoFault \<Longrightarrow> save_prediction now fl uid t1 t2 up so p e sp s = (SaveError fl, s)"
  by (cases fl) (simp_all add: save_prediction_def Let_def)

lemma save_prediction_commit:
  "save_prediction now NoFault uid t1 t2 up so p e sp s =
     (Saved (Suc (length (predictions s))) p,
      credit_user uid p (insert_prediction now uid t1 t2 up so p e sp s))"
  by (simp add: save_prediction_def Let_def credit_user_def insert_prediction_def)

lemma balance_save_prediction:
  "balance uid (snd (save_prediction now fl u t1 t2 up so p e sp s)) =
     map_option (\<lambda>b. b + (if u = uid \<and> fl = NoFault then p else 0)) (balance uid s)"
proof (cases "fl = NoFault")
  case True
  then show ?thesis
    by (simp add: save_prediction_commit balance_credit_user balance_insert_prediction)
next
  case False
  then show ?thesis
    by (simp add: save_prediction_rollback option.map_ident)
qed

lemma balance_other_tables:
  "balance uid (snd (create_quiz_progress now u t s)) = balance uid s"
  "balance uid (sql_update_quiz_progress now u t lvl i ls c s) = balance uid s"
  "balance uid (sql_replace_completed_level now u t lvl fs s) = balance uid s"
  "balance uid (add_quiz_attempt now u t d sc q a s) = balance uid s"
  "balance uid (snd (add_prediction now u t1 t2 w ps e s)) = balance uid s"
  "balance uid (add_chat_message now u m r tool s) = balance uid s"
  "balance uid (record_asked_question now u t qid s) = balance uid s"
  "balance uid (reset_asked_questions u t s) = balance uid s"
  by (simp_all add: balance_def get_user_def create_quiz_progress_def sql_update_quiz_progress_def
      sql_replace_completed_level_def add_quiz_attempt_def add_prediction_def add_chat_message_def
      record_asked_question_def reset_asked_questions_def split: option.splits)

text \<open>
  From a state in which the user has a row, every sequence of operations changes the
  balance by exactly the sum of the awards it holds for that user.
\<close>

lemma ledger_step:
  "balance uid s = Some b \<Longrightarrow> balance uid (apply_op op s) = Some (b + awarded uid op)"
  by (cases op)
     (simp_all add: balance_update_user_points_any add_quiz_points_def balance_add_badge
        balance_create_user balance_save_prediction balance_other_tables)

lemma ledger_run:
  "balance uid s = Some b \<Longrightarrow>
   balance uid (run_ops ops s) = Some (b + sum_list (map (awarded uid) ops))"
  unfolding run_ops_def
proof (induction ops arbitrary: s b)
  case Nil
  then show ?case by simp
next
  case (Cons op ops)
  from Cons.prems have "balance uid (apply_op op s) = Some (b + awarded uid op)"
    by (rule ledger_step)
  then have "balance uid (fold apply_op ops (apply_op op s)) =
      Some (b + awarded uid op + sum_list (map (awarded uid) ops))"
    by (rule Cons.IH)
  then show ?case by (simp add: add.assoc)
qed

lemma generate_prediction_sample:
  "predicted_winner (generate_prediction 0 ''Los Angeles Lakers'' ''Boston Celtics'' ''nba'') =
     ''Los Angeles Lakers''"
  by (simp add: generate_prediction_def team_data_of_def TEAM_RANKINGS_def team_score_def Let_def)

text \<open>
  Claim C4. Saving a prediction is all or nothing: the prediction row is appended and the
  user's \<open>total_points\<close> grows by the award, or neither happens. The rollback gives the
  second half on every exception (\<open>save_prediction_rollback\<close>), and for a user that has a
  row a commit does both (\<open>save_prediction_commit\<close>, \<open>balance_save_prediction\<close>). For a
  user id without a row the code does one without the other, which the evaluation below
  shows: the UPDATE matches no row and raises nothing, the transaction commits, the call
  reports success, the prediction row with its 25 points is stored and no balance has
  changed.
\<close>

theorem save_prediction_without_user_row:
  "balance ''bob'' init_db = None \<and>
   save_prediction 10 NoFault ''bob'' ''Los Angeles Lakers'' ''Boston Celtics''
       ''Los Angeles Lakers'' ''Los Angeles Lakers'' 25 ''text'' (Some ''nba'') init_db =
     (Saved 1 25,
      init_db\<lparr>predictions :=
        [\<lparr>p_user_id = ''bob'', p_team1 = ''Los Angeles Lakers'', p_team2 = ''Boston Celtics'',
          p_predicted_winner = ''Los Angeles Lakers'', predicted_score = ''nba'',
          p_explanation = ''text'', actual_outcome = Some ''Los Angeles Lakers'',
          points_earned = 25, p_created_at = 10\<rparr>]\<rparr>)"
  by (simp add: save_prediction_commit credit_user_def insert_prediction_def init_db_def
      balance_def get_user_def)

text \<open>
  Claim C1. For every user, in every reachable state, \<open>total_points\<close> is the sum of the
  quiz and prediction awards ever applied to that user. This holds from the moment the
  user has a row (\<open>ledger_run\<close>), and fails for an award made before: the prediction
  endpoint answers 25 points earned for bob, who has no row, and stores the prediction
  with \<open>points_earned = 25\<close>; when bob's row is created afterwards its balance is 0, while
  the awards applied to bob sum to 25.
\<close>

theorem award_before_user_row_is_lost:
  "map_sum id pr_points_earned (fst (submit_prediction 10 0 ''text'' NoFault sample_prediction_submit init_db)) = Inr 25 \<and>
   map points_earned (predictions (snd (submit_prediction 10 0 ''text'' NoFault sample_prediction_submit init_db))) = [25] \<and>
   balance ''bob'' (snd (submit_prediction 10 0 ''text'' NoFault sample_prediction_submit init_db)) = None \<and>
   balance ''bob'' (snd (create_user 20 ''bob'' ''Bob'' ''General''
      (snd (submit_prediction 10 0 ''text'' NoFault sample_prediction_submit init_db)))) = Some 0 \<and>
   sum_list (map (awarded ''bob'')
      [SavePrediction 10 NoFault ''bob'' ''Los Angeles Lakers'' ''Boston Celtics''
         ''Los Angeles Lakers'' ''Los Angeles Lakers'' 25 ''text'' (Some ''nba''),
       CreateUser 20 ''bob'' ''Bob'' ''General'']) = 25 \<and>
   balance ''bob'' (run_ops
      [SavePrediction 10 NoFault ''bob'' ''Los Angeles Lakers'' ''Boston Celtics''
         ''Los Angeles Lakers'' ''Los Angeles Lakers'' 25 ''text'' (Some ''nba''),
       CreateUser 20 ''bob'' ''Bob'' ''General''] init_db) = Some 0"
proof -
  have sub: "submit_prediction 10 0 ''text'' NoFault sample_prediction_submit init_db =
     (Inr \<lparr>pr_user_prediction = ''Los Angeles Lakers'', system_outcome = ''Los Angeles Lakers'',
           pr_is_correct = True, pr_points_earned = 25,
           pr_confidence = confidence (generate_prediction 0 ''Los Angeles Lakers'' ''Boston Celtics'' ''nba'')\<rparr>,
      snd (save_prediction 10 NoFault ''bob'' ''Los Angeles Lakers'' ''Boston Celtics''
       ''Los Angeles Lakers'' ''Los Angeles Lakers'' 25 ''text'' (Some ''nba'') init_db))"
    by (simp add: submit_prediction_def sample_prediction_submit_def generate_prediction_sample
        evaluate_prediction_def Let_def split: prod.splits)
  have sv: "snd (save_prediction 10 NoFault ''bob'' ''Los Angeles Lakers'' ''Boston Celtics''
       ''Los Angeles Lakers'' ''Los Angeles Lakers'' 25 ''text'' (Some ''nba'') init_db) =
      init_db\<lparr>predictions :=
        [\<lparr>p_user_id = ''bob'', p_team1 = ''Los Angeles Lakers'', p_team2 = ''Boston Celtics'',
          p_predicted_winner = ''Los Angeles Lakers'', predicted_score = ''nba'',
          p_explanation = ''text'', actual_outcome = Some ''Los Angeles Lakers'',
          points_earned = 25, p_created_at = 10\<rparr>]\<rparr>"
    by (simp add: save_prediction_commit credit_user_def insert_prediction_def init_db_def)
  show ?thesis
    by (simp add: sub sv run_ops_def) (simp add: init_db_def balance_def get_user_def create_user_def)
qed

end
